theory Spec2Isabelle
  imports Complex_Main "HOL-Library.Multiset"
begin

section \<open>Railway platform display: the scheduling core of app.js\<close>

text \<open>
  The development embeds the scheduling core of \<^verbatim>\<open>src/app.js\<close>: the time utilities
  (\<^verbatim>\<open>pad2\<close>, \<^verbatim>\<open>clamp\<close>, \<^verbatim>\<open>toMinutes\<close>, \<^verbatim>\<open>toHHMM\<close>), the platform assignment
  (\<^verbatim>\<open>timeWithDelay\<close>, \<^verbatim>\<open>intervalsOverlap\<close>, \<^verbatim>\<open>assignPlatforms\<close>), the status
  derivation (\<^verbatim>\<open>computeDerived\<close>) and the store actions (\<^verbatim>\<open>announce\<close>,
  \<^verbatim>\<open>updateTrain\<close>, \<^verbatim>\<open>delayTrain\<close>, \<^verbatim>\<open>cancelTrain\<close>, \<^verbatim>\<open>clearAll\<close>).

  Conventions of the embedding.
  \<^item> A JavaScript number that holds a minute count of a train, a delay or a platform number
    is an \<open>int\<close>; the platform count, which sizes an array, is a \<open>nat\<close>. The virtual clock,
    which a tick advances by a fraction of a minute, is a \<open>real\<close>: a double is taken as the
    real number it stands for, and rounding is left out. The entries of the
    \<^verbatim>\<open>platformEnd\<close> array, which start at \<^verbatim>\<open>-Infinity\<close> and can become \<^verbatim>\<open>NaN\<close>,
    have a type of their own.
  \<^item> The global \<^verbatim>\<open>state\<close> object is a record that every action takes and returns.
  \<^item> The train objects are shared between \<^verbatim>\<open>state.trains\<close> and the sorted copy that
    \<^verbatim>\<open>assignPlatforms\<close> iterates over. An object is identified by its position in
    \<^verbatim>\<open>state.trains\<close>; the sorted copy is a list of such positions.
  \<^item> Rendering to the document and saving to \<^verbatim>\<open>localStorage\<close> do not change the
    \<^verbatim>\<open>state\<close> object and are left out.
\<close>

subsection \<open>Utilities\<close>

text \<open>\<^verbatim>\<open>String(n)\<close> for an integral number: its decimal digits, with a minus sign
  when negative (the form JavaScript prints below \<open>10\<^sup>2\<^sup>1\<close>).\<close>

definition digit_char :: "nat \<Rightarrow> char" where
  "digit_char d = ''0123456789'' ! (d mod 10)"

fun digits_of :: "nat \<Rightarrow> string" where
  "digits_of n = (if n < 10 then [digit_char n] else digits_of (n div 10) @ [digit_char (n mod 10)])"

definition String_of :: "int \<Rightarrow> string" where
  "String_of n = (if n < 0 then CHR ''-'' # digits_of (nat (- n)) else digits_of (nat n))"

text \<open>\<^verbatim>\<open>s.padStart(n, pad)\<close>: the pad string is repeated and cut to fill the missing
  length, and nothing happens when \<open>s\<close> is long enough or the pad string is empty.\<close>

definition padStart :: "nat \<Rightarrow> string \<Rightarrow> string \<Rightarrow> string" where
  "padStart n pad s =
     (if n \<le> length s \<or> pad = [] then s
      else take (n - length s) (concat (replicate (n - length s) pad)) @ s)"

text \<open>\<^verbatim>\<open>const pad2 = (n) => String(n).padStart(2, "0")\<close>\<close>

definition pad2 :: "int \<Rightarrow> string" where
  "pad2 n = padStart 2 ''0'' (String_of n)"

text \<open>\<^verbatim>\<open>const clamp = (n, lo, hi) => Math.max(lo, Math.min(hi, n))\<close>\<close>

definition clamp :: "int \<Rightarrow> int \<Rightarrow> int \<Rightarrow> int" where
  "clamp n lo hi = max lo (min hi n)"

text \<open>The remainder operator \<^verbatim>\<open>%\<close> of JavaScript truncates: the result has the sign of
  the dividend. (HOL's \<open>mod\<close> on \<open>int\<close> floors instead.)\<close>

definition js_rem :: "int \<Rightarrow> int \<Rightarrow> int" where
  "js_rem a b = sgn a * (\<bar>a\<bar> mod \<bar>b\<bar>)"

text \<open>\<^verbatim>\<open>parseInt(x, 10)\<close>: leading white space is skipped, one sign is read, then the
  longest run of decimal digits; with no digit the result is \<^verbatim>\<open>NaN\<close>, here \<open>None\<close>.
  White space is the ASCII part of what JavaScript strips.\<close>

definition is_space :: "char \<Rightarrow> bool" where
  "is_space c = (c \<in> set [CHR '' '', CHR 0x09, CHR 0x0A, CHR 0x0B, CHR 0x0C, CHR 0x0D])"

definition digit_val :: "char \<Rightarrow> nat option" where
  "digit_val c = map_of (zip ''0123456789'' [0, 1, 2, 3, 4, 5, 6, 7, 8, 9]) c"

definition is_digit :: "char \<Rightarrow> bool" where
  "is_digit c = (digit_val c \<noteq> None)"

definition digits_val :: "string \<Rightarrow> int" where
  "digits_val ds = foldl (\<lambda>acc c. acc * 10 + int (case digit_val c of Some d \<Rightarrow> d | None \<Rightarrow> 0)) 0 ds"

definition parseInt10 :: "string \<Rightarrow> int option" where
  "parseInt10 s =
     (let s1 = dropWhile is_space s;
          sg = (case s1 of c # r \<Rightarrow> if c = CHR ''-'' then (- 1 :: int) else 1 | [] \<Rightarrow> 1);
          s2 = (case s1 of c # r \<Rightarrow> if c = CHR ''-'' \<or> c = CHR ''+'' then r else s1 | [] \<Rightarrow> s1);
          ds = takeWhile is_digit s2
      in if ds = [] then None else Some (sg * digits_val ds))"

text \<open>\<^verbatim>\<open>s.split(":")\<close>: the pieces between the separators, one piece at least.\<close>

fun split_on :: "char \<Rightarrow> string \<Rightarrow> string list" where
  "split_on c [] = [[]]"
| "split_on c (x # xs) =
     (if x = c then [] # split_on c xs
      else (case split_on c xs of w # ws \<Rightarrow> (x # w) # ws | [] \<Rightarrow> [[x]]))"

text \<open>The argument of \<^verbatim>\<open>toMinutes\<close> is a number or a string.
  \<^verbatim>\<open>
  function toMinutes(hhmm) {
    if (typeof hhmm === "number") return hhmm;
    const [h, m] = hhmm.split(":").map((x) => parseInt(x, 10));
    return h * 60 + m;
  }
  \<close>
  A missing second piece leaves \<^verbatim>\<open>m\<close> undefined, and the sum is \<^verbatim>\<open>NaN\<close> (\<open>None\<close>) as
  it is when a piece has no digits.\<close>

datatype time_arg = Num int | Str string

fun toMinutes :: "time_arg \<Rightarrow> int option" where
  "toMinutes (Num n) = Some n"
| "toMinutes (Str hhmm) =
     (case map parseInt10 (split_on CHR '':'' hhmm) of
        Some h # Some m # _ \<Rightarrow> Some (h * 60 + m)
      | _ \<Rightarrow> None)"

text \<open>
  \<^verbatim>\<open>
  function toHHMM(minutes) {
    const m = ((minutes % (24 * 60)) + (24 * 60)) % (24 * 60);
    const h = Math.floor(m / 60);
    const mm = m % 60;
    return `${pad2(h)}:${pad2(mm)}`;
  }
  \<close>\<close>

definition toHHMM :: "int \<Rightarrow> string" where
  "toHHMM minutes =
     (let m = js_rem (js_rem minutes (24 * 60) + 24 * 60) (24 * 60);
          h = m div 60;
          mm = js_rem m 60
      in pad2 h @ '':'' @ pad2 mm)"

text \<open>The spec's words for \<^verbatim>\<open>toHHMM\<close>: the minute count normalised into \<open>[0, 1440)\<close>,
  then two digits of hours, a colon, two digits of minutes.\<close>

definition hhmm_spec :: "int \<Rightarrow> string" where
  "hhmm_spec minutes =
     (let m = nat (minutes mod 1440); h = m div 60; mm = m mod 60
      in [digit_char (h div 10), digit_char (h mod 10), CHR '':'',
          digit_char (mm div 10), digit_char (mm mod 10)])"

text \<open>\<^verbatim>\<open>toHHMM\<close> is also called on the virtual clock, which is not integral after a
  tick. The same function bodies on any number follow. \<^verbatim>\<open>a % b\<close> is
  \<open>a - b * trunc (a / b)\<close>, with the quotient truncated towards zero; \<^verbatim>\<open>Math.floor\<close> is
  the floor. \<^verbatim>\<open>String(x)\<close> prints the digits of \<open>x\<close> when \<open>x\<close> is integral. For a number
  that is not integral it is the conversion built into JavaScript (the shortest decimal
  that reads back as the same double), which is no code of this repository: it is the
  parameter \<open>numberToString\<close> of every function that reaches it. At an integral argument
  \<open>toHHMM_num\<close> is \<open>toHHMM\<close>, whatever the parameter (lemma \<open>toHHMM_num_of_int\<close>).\<close>

text \<open>The divisors in this file are the constants 1440 and 60, and the clock is a finite
  number; \<^verbatim>\<open>NaN\<close> and the infinities are not values of these functions.\<close>

definition js_rem_num :: "real \<Rightarrow> real \<Rightarrow> real" where
  "js_rem_num a b = a - b * of_int (if a / b < 0 then \<lceil>a / b\<rceil> else \<lfloor>a / b\<rfloor>)"

definition String_num :: "(real \<Rightarrow> string) \<Rightarrow> real \<Rightarrow> string" where
  "String_num numberToString x =
     (if of_int \<lfloor>x\<rfloor> = x then String_of \<lfloor>x\<rfloor> else numberToString x)"

definition pad2_num :: "(real \<Rightarrow> string) \<Rightarrow> real \<Rightarrow> string" where
  "pad2_num numberToString n = padStart 2 ''0'' (String_num numberToString n)"

definition toHHMM_num :: "(real \<Rightarrow> string) \<Rightarrow> real \<Rightarrow> string" where
  "toHHMM_num numberToString minutes =
     (let m = js_rem_num (js_rem_num minutes (24 * 60) + 24 * 60) (24 * 60);
          h = of_int \<lfloor>m / 60\<rfloor>;
          mm = js_rem_num m 60
      in pad2_num numberToString h @ '':'' @ pad2_num numberToString mm)"

subsection \<open>Core data model\<close>

text \<open>The six values of the \<^verbatim>\<open>Status\<close> table.\<close>

datatype Status = ON_TIME | DELAYED | BOARDING | DEPARTED | ARRIVED | CANCELLED

text \<open>A train object. \<^verbatim>\<open>platform\<close> is \<^verbatim>\<open>number | null\<close>; \<^verbatim>\<open>assignedPlatform\<close> is
  the derived field that \<^verbatim>\<open>assignPlatforms\<close> creates, absent (\<open>None\<close>) before the first
  pass. The fields \<^verbatim>\<open>id\<close>, \<^verbatim>\<open>from\<close> and \<^verbatim>\<open>to\<close> carry a suffix.\<close>

record train =
  id_f :: string
  trainNo :: string
  from_f :: string
  to_f :: string
  arrive :: int
  depart :: int
  delayMin :: int
  status :: Status
  platform :: "int option"
  assignedPlatform :: "int option"

text \<open>\<^verbatim>\<open>state.sim\<close> and \<^verbatim>\<open>state\<close>. The virtual clock starts at a whole minute and a
  tick adds \<^verbatim>\<open>(dt / 1000) * speed\<close> to it, so it is a real number.\<close>

record simulation =
  virtualMinutes :: real
  autoAdvance :: bool
  speed :: real
  lastTick :: int

record state =
  trains :: "train list"
  announcements :: "string list"
  numPlatforms :: nat
  sim :: simulation
  filterStatus :: string
  editingId :: "string option"

subsection \<open>Scheduling and assignment\<close>

text \<open>
  \<^verbatim>\<open>
  function timeWithDelay(train) {
    return {
      arrive: train.arrive + (train.status === Status.DELAYED ? train.delayMin : 0),
      depart: train.depart + (train.status === Status.DELAYED ? train.delayMin : 0),
    };
  }
  \<close>
  The result object is the pair \<open>(arrive, depart)\<close>.\<close>

definition timeWithDelay :: "train \<Rightarrow> int \<times> int" where
  "timeWithDelay tr =
     (arrive tr + (if status tr = DELAYED then delayMin tr else 0),
      depart tr + (if status tr = DELAYED then delayMin tr else 0))"

text \<open>\<^verbatim>\<open>return aStart < bEnd && bStart < aEnd;\<close>\<close>

definition intervalsOverlap :: "int \<Rightarrow> int \<Rightarrow> int \<Rightarrow> int \<Rightarrow> bool" where
  "intervalsOverlap aStart aEnd bStart bEnd = (aStart < bEnd \<and> bStart < aEnd)"

text \<open>The entries of \<^verbatim>\<open>platformEnd\<close>: \<^verbatim>\<open>-Infinity\<close>, a departure minute, or \<^verbatim>\<open>NaN\<close>.
  Every comparison with \<^verbatim>\<open>NaN\<close> is false and \<^verbatim>\<open>Math.max\<close> of \<^verbatim>\<open>NaN\<close> is \<^verbatim>\<open>NaN\<close>.\<close>

datatype jsnum = NegInf | Fin int | NaN

fun js_le :: "jsnum \<Rightarrow> jsnum \<Rightarrow> bool" where
  "js_le NaN _ = False"
| "js_le _ NaN = False"
| "js_le NegInf _ = True"
| "js_le (Fin a) NegInf = False"
| "js_le (Fin a) (Fin b) = (a \<le> b)"

fun js_lt :: "jsnum \<Rightarrow> jsnum \<Rightarrow> bool" where
  "js_lt NaN _ = False"
| "js_lt _ NaN = False"
| "js_lt _ NegInf = False"
| "js_lt NegInf (Fin b) = True"
| "js_lt (Fin a) (Fin b) = (a < b)"

fun Math_max :: "jsnum \<Rightarrow> jsnum \<Rightarrow> jsnum" where
  "Math_max NaN _ = NaN"
| "Math_max _ NaN = NaN"
| "Math_max NegInf y = y"
| "Math_max x NegInf = x"
| "Math_max (Fin a) (Fin b) = Fin (max a b)"

text \<open>Reading \<^verbatim>\<open>platformEnd[i]\<close> past the end gives \<^verbatim>\<open>undefined\<close>, which \<^verbatim>\<open><=\<close>,
  \<^verbatim>\<open><\<close> and \<^verbatim>\<open>Math.max\<close> convert to \<^verbatim>\<open>NaN\<close>. Writing past the end extends the
  array; the holes it may leave read as \<^verbatim>\<open>undefined\<close> again.\<close>

definition pe_get :: "jsnum list \<Rightarrow> nat \<Rightarrow> jsnum" where
  "pe_get platformEnd i = (if i < length platformEnd then platformEnd ! i else NaN)"

definition pe_set :: "jsnum list \<Rightarrow> nat \<Rightarrow> jsnum \<Rightarrow> jsnum list" where
  "pe_set platformEnd i v =
     (if i < length platformEnd then platformEnd[i := v]
      else platformEnd @ replicate (i - length platformEnd) NaN @ [v])"

text \<open>The sorted copy
  \<^verbatim>\<open>[...trains].sort((a, b) => timeWithDelay(a).arrive - timeWithDelay(b).arrive)\<close>
  holds the same objects as \<^verbatim>\<open>trains\<close>, so it is the list of their positions in
  \<^verbatim>\<open>trains\<close>, in the order of a stable sort on the effective arrival.\<close>

definition sorted_refs :: "train list \<Rightarrow> nat list" where
  "sorted_refs ts = sort_key (\<lambda>i. fst (timeWithDelay (ts ! i))) [0 ..< length ts]"

text \<open>The test of the manual request: some other object \<^verbatim>\<open>o\<close> of the sorted copy has the
  same request and an overlapping effective window.
  \<^verbatim>\<open>
  sorted.some((o) => o !== tr && o.platform === tr.platform &&
    intervalsOverlap(timeWithDelay(o).arrive, timeWithDelay(o).depart, twd.arrive, twd.depart))
  \<close>\<close>

definition some_conflict :: "train list \<Rightarrow> nat list \<Rightarrow> nat \<Rightarrow> bool" where
  "some_conflict ts srt k =
     list_ex (\<lambda>j. j \<noteq> k \<and> platform (ts ! j) = platform (ts ! k) \<and>
                intervalsOverlap (fst (timeWithDelay (ts ! j))) (snd (timeWithDelay (ts ! j)))
                                 (fst (timeWithDelay (ts ! k))) (snd (timeWithDelay (ts ! k)))) srt"

text \<open>The first platform that is free at the arrival:
  \<^verbatim>\<open>for (let i = 0; i < numPlatforms; i++) { if (platformEnd[i] <= twd.arrive) { assigned = i; break; } }\<close>\<close>

definition first_free :: "jsnum list \<Rightarrow> nat \<Rightarrow> int \<Rightarrow> nat option" where
  "first_free platformEnd N a = find (\<lambda>i. js_le (pe_get platformEnd i) (Fin a)) [0 ..< N]"

text \<open>The platform that frees up earliest:
  \<^verbatim>\<open>
  let best = 0; let bestEnd = platformEnd[0];
  for (let i = 1; i < numPlatforms; i++) {
    if (platformEnd[i] < bestEnd) { best = i; bestEnd = platformEnd[i]; }
  }
  \<close>\<close>

definition earliest_step :: "jsnum list \<Rightarrow> nat \<Rightarrow> nat \<times> jsnum \<Rightarrow> nat \<times> jsnum" where
  "earliest_step platformEnd i = (\<lambda>(best, bestEnd).
     if js_lt (pe_get platformEnd i) bestEnd then (i, pe_get platformEnd i) else (best, bestEnd))"

definition earliest :: "jsnum list \<Rightarrow> nat \<Rightarrow> nat" where
  "earliest platformEnd N = fst (fold (earliest_step platformEnd) [1 ..< N] (0, pe_get platformEnd 0))"

text \<open>The platform index chosen for the object at position \<open>k\<close>: the manual request when
  it is a number and has no conflict, else the first free platform, else the earliest
  one. (The loop over \<^verbatim>\<open>intervalsOverlap(platformEnd[i], ...)\<close> with the empty body has no
  effect and is left out.)\<close>

definition choose_platform :: "nat \<Rightarrow> nat list \<Rightarrow> jsnum list \<Rightarrow> train list \<Rightarrow> nat \<Rightarrow> nat" where
  "choose_platform N srt platformEnd ts k =
     (let tr = ts ! k;
          twd = timeWithDelay tr;
          manual = (case platform tr of
                      Some pl \<Rightarrow>
                        (let p = nat (clamp pl 1 (int N) - 1)
                         in if \<not> some_conflict ts srt k then Some p else None)
                    | None \<Rightarrow> None);
          found = (case manual of None \<Rightarrow> first_free platformEnd N (fst twd) | Some p \<Rightarrow> Some p)
      in case found of None \<Rightarrow> earliest platformEnd N | Some p \<Rightarrow> p)"

text \<open>One round of the loop \<^verbatim>\<open>for (const tr of sorted)\<close>, ending with
  \<^verbatim>\<open>
  platformEnd[assigned] = Math.max(platformEnd[assigned], twd.depart);
  tr.assignedPlatform = assigned + 1;
  \<close>
  The state of the loop is the array \<^verbatim>\<open>platformEnd\<close> and the train objects.\<close>

definition assign_step :: "nat \<Rightarrow> nat list \<Rightarrow> nat \<Rightarrow> jsnum list \<times> train list \<Rightarrow> jsnum list \<times> train list" where
  "assign_step N srt k = (\<lambda>(platformEnd, ts).
     let tr = ts ! k;
         twd = timeWithDelay tr;
         assigned = choose_platform N srt platformEnd ts k
     in (pe_set platformEnd assigned (Math_max (pe_get platformEnd assigned) (Fin (snd twd))),
         ts[k := tr\<lparr>assignedPlatform := Some (int assigned + 1)\<rparr>]))"

text \<open>The whole loop, from \<^verbatim>\<open>new Array(numPlatforms).fill(-Infinity)\<close>.\<close>

definition assign_loop :: "train list \<Rightarrow> nat \<Rightarrow> jsnum list \<times> train list" where
  "assign_loop ts N =
     fold (assign_step N (sorted_refs ts)) (sorted_refs ts) (replicate N NegInf, ts)"

text \<open>\<^verbatim>\<open>assignPlatforms(trains, numPlatforms)\<close> returns the sorted copy and, as its effect,
  leaves the train objects of \<^verbatim>\<open>trains\<close> updated: the result is the pair of the returned
  array and of \<^verbatim>\<open>trains\<close> after the call.\<close>

definition assignPlatforms :: "train list \<Rightarrow> nat \<Rightarrow> train list \<times> train list" where
  "assignPlatforms ts N =
     (let ts' = snd (assign_loop ts N) in (map (\<lambda>i. ts' ! i) (sorted_refs ts), ts'))"

subsection \<open>Status derivation\<close>

text \<open>The body of the loop of \<^verbatim>\<open>computeDerived\<close> over \<^verbatim>\<open>state.trains\<close>:
  \<^verbatim>\<open>
  if (tr.status === Status.CANCELLED) continue;
  const { arrive, depart } = timeWithDelay(tr);
  if (vm >= depart + 5) tr.status = Status.DEPARTED;
  else if (vm >= depart - 5 && vm < depart + 5) tr.status = Status.BOARDING;
  else if (vm >= arrive && vm < depart - 5) tr.status = Status.ARRIVED;
  else if (tr.delayMin > 0) tr.status = Status.DELAYED;
  else tr.status = Status.ON_TIME;
  \<close>\<close>

definition derive_status :: "real \<Rightarrow> train \<Rightarrow> train" where
  "derive_status vm tr =
     (if status tr = CANCELLED then tr
      else let twd = timeWithDelay tr;
               arrive' = real_of_int (fst twd); depart' = real_of_int (snd twd)
           in if vm \<ge> depart' + 5 then tr\<lparr>status := DEPARTED\<rparr>
              else if vm \<ge> depart' - 5 \<and> vm < depart' + 5 then tr\<lparr>status := BOARDING\<rparr>
              else if vm \<ge> arrive' \<and> vm < depart' - 5 then tr\<lparr>status := ARRIVED\<rparr>
              else if delayMin tr > 0 then tr\<lparr>status := DELAYED\<rparr>
              else tr\<lparr>status := ON_TIME\<rparr>)"

text \<open>\<^verbatim>\<open>computeDerived\<close>: the status loop, the platform assignment on the same objects,
  then \<^verbatim>\<open>state.trains.sort((a, b) => timeWithDelay(a).depart - timeWithDelay(b).depart)\<close>
  in place (a stable sort).\<close>

definition computeDerived :: "state \<Rightarrow> state" where
  "computeDerived s =
     (let vm = virtualMinutes (sim s);
          ts1 = map (derive_status vm) (trains s);
          ts2 = snd (assignPlatforms ts1 (numPlatforms s))
      in s\<lparr>trains := sort_key (\<lambda>t. snd (timeWithDelay t)) ts2\<rparr>)"

text \<open>The spec's words for the status rule: the effective window, and the status by
  first match.\<close>

definition spec_window :: "train \<Rightarrow> int \<times> int" where
  "spec_window tr =
     (if status tr = DELAYED then (arrive tr + delayMin tr, depart tr + delayMin tr)
      else (arrive tr, depart tr))"

definition spec_status :: "real \<Rightarrow> int \<times> int \<Rightarrow> int \<Rightarrow> Status" where
  "spec_status vm w delay =
     (let a = real_of_int (fst w); d = real_of_int (snd w)
      in if vm \<ge> d + 5 then DEPARTED
         else if d - 5 \<le> vm \<and> vm < d + 5 then BOARDING
         else if a \<le> vm \<and> vm < d - 5 then ARRIVED
         else if delay > 0 then DELAYED
         else ON_TIME)"

subsection \<open>Announcements and actions\<close>

text \<open>
  \<^verbatim>\<open>
  function announce(message) {
    const ts = toHHMM(state.sim.virtualMinutes);
    state.announcements.unshift(`[${ts}] ${message}`);
    state.announcements = state.announcements.slice(0, 6);
    renderAnnouncements();
  }
  \<close>\<close>

definition announce :: "(real \<Rightarrow> string) \<Rightarrow> string \<Rightarrow> state \<Rightarrow> state" where
  "announce numberToString message s =
     (let ts = toHHMM_num numberToString (virtualMinutes (sim s))
      in s\<lparr>announcements := take 6 ((''['' @ ts @ ''] '' @ message) # announcements s)\<rparr>)"

text \<open>\<^verbatim>\<open>renderAll\<close> draws the clock, calls \<^verbatim>\<open>computeDerived\<close>, draws the table and the
  platforms and saves: on the state it is \<^verbatim>\<open>computeDerived\<close>.\<close>

definition renderAll :: "state \<Rightarrow> state" where
  "renderAll s = computeDerived s"

text \<open>\<^verbatim>\<open>state.trains.find((t) => t.id === id)\<close>: the first object with that id, as its
  position.\<close>

fun find_id :: "string \<Rightarrow> train list \<Rightarrow> nat option" where
  "find_id i [] = None"
| "find_id i (t # ts) = (if id_f t = i then Some 0 else map_option Suc (find_id i ts))"

text \<open>The \<^verbatim>\<open>updates\<close> object of \<^verbatim>\<open>updateTrain\<close>: each field of a train is present or
  not, and \<^verbatim>\<open>Object.assign(tr, updates)\<close> overwrites the fields that are present.\<close>

record updates =
  u_id :: "string option"
  u_trainNo :: "string option"
  u_from :: "string option"
  u_to :: "string option"
  u_arrive :: "int option"
  u_depart :: "int option"
  u_delayMin :: "int option"
  u_status :: "Status option"
  u_platform :: "int option option"
  u_assignedPlatform :: "int option option"

definition Object_assign :: "train \<Rightarrow> updates \<Rightarrow> train" where
  "Object_assign tr u =
     \<lparr> id_f = (case u_id u of Some v \<Rightarrow> v | None \<Rightarrow> id_f tr),
       trainNo = (case u_trainNo u of Some v \<Rightarrow> v | None \<Rightarrow> trainNo tr),
       from_f = (case u_from u of Some v \<Rightarrow> v | None \<Rightarrow> from_f tr),
       to_f = (case u_to u of Some v \<Rightarrow> v | None \<Rightarrow> to_f tr),
       arrive = (case u_arrive u of Some v \<Rightarrow> v | None \<Rightarrow> arrive tr),
       depart = (case u_depart u of Some v \<Rightarrow> v | None \<Rightarrow> depart tr),
       delayMin = (case u_delayMin u of Some v \<Rightarrow> v | None \<Rightarrow> delayMin tr),
       status = (case u_status u of Some v \<Rightarrow> v | None \<Rightarrow> status tr),
       platform = (case u_platform u of Some v \<Rightarrow> v | None \<Rightarrow> platform tr),
       assignedPlatform = (case u_assignedPlatform u of Some v \<Rightarrow> v | None \<Rightarrow> assignedPlatform tr) \<rparr>"

text \<open>
  \<^verbatim>\<open>
  function updateTrain(id, updates) {
    const tr = state.trains.find((t) => t.id === id);
    if (!tr) return;
    Object.assign(tr, updates);
    announce(`Train ${tr.trainNo} updated.`);
    renderAll();
  }
  \<close>\<close>

definition updateTrain :: "(real \<Rightarrow> string) \<Rightarrow> string \<Rightarrow> updates \<Rightarrow> state \<Rightarrow> state" where
  "updateTrain numberToString i u s =
     (case find_id i (trains s) of
        None \<Rightarrow> s
      | Some k \<Rightarrow>
          (let tr = Object_assign (trains s ! k) u;
               s1 = s\<lparr>trains := (trains s)[k := tr]\<rparr>;
               s2 = announce numberToString (''Train '' @ trainNo tr @ '' updated.'') s1
           in renderAll s2))"

text \<open>
  \<^verbatim>\<open>
  function delayTrain(id, minutes) {
    const tr = state.trains.find((t) => t.id === id);
    if (!tr) return;
    tr.delayMin = (tr.delayMin || 0) + minutes;
    tr.status = Status.DELAYED;
    announce(`Train ${tr.trainNo} delayed by ${minutes} minutes.`);
    renderAll();
  }
  \<close>\<close>

definition delayTrain :: "(real \<Rightarrow> string) \<Rightarrow> string \<Rightarrow> int \<Rightarrow> state \<Rightarrow> state" where
  "delayTrain numberToString i minutes s =
     (case find_id i (trains s) of
        None \<Rightarrow> s
      | Some k \<Rightarrow>
          (let tr0 = trains s ! k;
               tr = tr0\<lparr>delayMin := (if delayMin tr0 \<noteq> 0 then delayMin tr0 else 0) + minutes,
                         status := DELAYED\<rparr>;
               s1 = s\<lparr>trains := (trains s)[k := tr]\<rparr>;
               s2 = announce numberToString
                      (''Train '' @ trainNo tr @ '' delayed by '' @ String_of minutes @ '' minutes.'') s1
           in renderAll s2))"

text \<open>
  \<^verbatim>\<open>
  function cancelTrain(id) {
    const tr = state.trains.find((t) => t.id === id);
    if (!tr) return;
    tr.status = Status.CANCELLED;
    announce(`Train ${tr.trainNo} has been cancelled.`);
    renderAll();
  }
  \<close>\<close>

definition cancelTrain :: "(real \<Rightarrow> string) \<Rightarrow> string \<Rightarrow> state \<Rightarrow> state" where
  "cancelTrain numberToString i s =
     (case find_id i (trains s) of
        None \<Rightarrow> s
      | Some k \<Rightarrow>
          (let tr = (trains s ! k)\<lparr>status := CANCELLED\<rparr>;
               s1 = s\<lparr>trains := (trains s)[k := tr]\<rparr>;
               s2 = announce numberToString (''Train '' @ trainNo tr @ '' has been cancelled.'') s1
           in renderAll s2))"

text \<open>
  \<^verbatim>\<open>
  function clearAll() {
    state.trains = [];
    state.announcements = [];
    announce("All trains cleared.");
    renderAll();
  }
  \<close>\<close>

definition clearAll :: "(real \<Rightarrow> string) \<Rightarrow> state \<Rightarrow> state" where
  "clearAll numberToString s =
     renderAll (announce numberToString ''All trains cleared.'' (s\<lparr>trains := [], announcements := []\<rparr>))"

subsection \<open>Auxiliary notions for the proofs\<close>

text \<open>A train object without its derived field: two objects that agree on it differ at
  most in \<^verbatim>\<open>assignedPlatform\<close>.\<close>

definition forget_assigned :: "train \<Rightarrow> train" where
  "forget_assigned t = t\<lparr>assignedPlatform := None\<rparr>"

text \<open>The derived field is set, to a platform number between 1 and the platform
  count.\<close>

definition in_range :: "nat \<Rightarrow> train \<Rightarrow> bool" where
  "in_range N t = (case assignedPlatform t of None \<Rightarrow> False | Some a \<Rightarrow> 1 \<le> a \<and> a \<le> int N)"

subsection \<open>Example data\<close>

text \<open>The first two trains of \<^verbatim>\<open>seed()\<close> (\<^verbatim>\<open>base\<close> is 08:00, minute 480), with fixed
  ids in place of the random ones, and the initial \<^verbatim>\<open>state\<close> holding them, at 08:00
  with six platforms. \<open>boundary_train\<close> has the window 08:00 to 08:20 and no delay;
  \<open>manual_train\<close> requests platform 2; \<open>empty_updates\<close> is the object \<^verbatim>\<open>{}\<close>. In
  \<open>state0\<close> the clock is at a whole minute, where the conversion of a number that is not
  integral is never reached; \<open>unused_numberToString\<close> stands for it there.\<close>

definition train_12001 :: train where
  "train_12001 = \<lparr>id_f = ''id1'', trainNo = ''12001'', from_f = ''Central'', to_f = ''Harbor'',
     arrive = 490, depart = 500, delayMin = 0, status = ON_TIME,
     platform = Some 1, assignedPlatform = None\<rparr>"

definition train_12002 :: train where
  "train_12002 = \<lparr>id_f = ''id2'', trainNo = ''12002'', from_f = ''Uptown'', to_f = ''Lakeside'',
     arrive = 495, depart = 510, delayMin = 0, status = ON_TIME,
     platform = None, assignedPlatform = None\<rparr>"

definition state0 :: state where
  "state0 = \<lparr>trains = [train_12001, train_12002], announcements = [], numPlatforms = 6,
     sim = \<lparr>virtualMinutes = 480, autoAdvance = True, speed = 1, lastTick = 0\<rparr>,
     filterStatus = ''all'', editingId = None\<rparr>"

definition boundary_train :: "Status \<Rightarrow> train" where
  "boundary_train st = \<lparr>id_f = ''b'', trainNo = ''1'', from_f = ''A'', to_f = ''B'',
     arrive = 480, depart = 500, delayMin = 0, status = st,
     platform = None, assignedPlatform = None\<rparr>"

definition manual_train :: "int \<Rightarrow> int \<Rightarrow> train" where
  "manual_train a d = \<lparr>id_f = ''m'', trainNo = ''2'', from_f = ''A'', to_f = ''B'',
     arrive = a, depart = d, delayMin = 0, status = ON_TIME,
     platform = Some 2, assignedPlatform = None\<rparr>"

definition unused_numberToString :: "real \<Rightarrow> string" where
  "unused_numberToString x = []"

definition empty_updates :: updates where
  "empty_updates = \<lparr>u_id = None, u_trainNo = None, u_from = None, u_to = None,
     u_arrive = None, u_depart = None, u_delayMin = None, u_status = None,
     u_platform = None, u_assignedPlatform = None\<rparr>"

subsection \<open>Facts about the utilities\<close>

lemma js_rem_nonneg: "0 \<le> a \<Longrightarrow> 0 < b \<Longrightarrow> js_rem a b = a mod b"
  by (cases "a = 0") (simp_all add: js_rem_def)

lemma js_rem_double: "0 < b \<Longrightarrow> js_rem (js_rem a b + b) b = a mod b"
proof -
  assume b: "0 < b"
  show ?thesis
  proof (cases "0 \<le> a")
    case True
    then have "js_rem a b = a mod b" using b by (rule js_rem_nonneg)
    moreover have "0 \<le> a mod b + b" using b by (simp add: add_nonneg_nonneg)
    ultimately show ?thesis using b by (simp add: js_rem_nonneg)
  next
    case False
    then have neg: "a < 0" by simp
    have r: "js_rem a b = - ((- a) mod b)"
      using neg b by (simp add: js_rem_def)
    have lt: "(- a) mod b < b" using b by simp
    have "js_rem (js_rem a b + b) b = js_rem (b - (- a) mod b) b"
      by (simp add: r)
    also have "\<dots> = (b - (- a) mod b) mod b"
    proof (rule js_rem_nonneg)
      show "0 \<le> b - (- a) mod b" using lt by simp
      show "0 < b" by (rule b)
    qed
    also have "\<dots> = (- (- a)) mod b"
      by (simp only: minus_mod_self1 mod_minus_eq)
    finally show ?thesis by simp
  qed
qed

lemma pad2_two_digits: "0 \<le> n \<Longrightarrow> n < 100 \<Longrightarrow>
    pad2 n = [digit_char (nat n div 10), digit_char (nat n mod 10)]"
proof -
  assume n: "0 \<le> n" "n < 100"
  show ?thesis
  proof (cases "nat n < 10")
    case True
    then show ?thesis using n
      by (simp add: pad2_def String_of_def padStart_def digit_char_def)
  next
    case False
    then have d: "nat n div 10 < 10" using n by simp
    from False d show ?thesis using n
      by (simp add: pad2_def String_of_def padStart_def)
  qed
qed

lemma toHHMM_hhmm_spec: "toHHMM minutes = hhmm_spec minutes"
proof -
  define m where "m = minutes mod 1440"
  have m0: "0 \<le> m" and m1: "m < 1440" by (simp_all add: m_def)
  have norm: "js_rem (js_rem minutes (24 * 60) + 24 * 60) (24 * 60) = m"
    using js_rem_double [of 1440 minutes] by (simp add: m_def)
  have h: "0 \<le> m div 60" "m div 60 < 100" using m0 m1 by simp_all
  have mm: "js_rem m 60 = m mod 60" using m0 by (simp add: js_rem_nonneg)
  have mmr: "0 \<le> m mod 60" "m mod 60 < 100" by simp_all
  have nd: "nat (m div 60) = nat m div 60" using m0 by (simp add: nat_div_distrib)
  have nm: "nat (m mod 60) = nat m mod 60" using m0 by (simp add: nat_mod_distrib)
  show ?thesis
    unfolding toHHMM_def hhmm_spec_def Let_def norm mm
    using pad2_two_digits [OF h] pad2_two_digits [OF mmr]
    by (simp add: m_def [symmetric] nd nm)
qed

text \<open>On an integral number the functions on the reals are the functions on the
  integers.\<close>

lemma js_rem_num_of_int:
  assumes b: "0 < b"
  shows "js_rem_num (of_int a) (of_int b) = of_int (js_rem a b)"
proof (cases "0 \<le> a")
  case True
  then have q: "\<not> real_of_int a / real_of_int b < 0" using b by (simp add: not_less)
  have "js_rem_num (of_int a) (of_int b) = of_int (a - b * (a div b))"
    unfolding js_rem_num_def using q by (simp add: floor_divide_of_int_eq)
  also have "a - b * (a div b) = a mod b" by (rule minus_mult_div_eq_mod)
  also have "a mod b = js_rem a b" using True b by (simp add: js_rem_nonneg)
  finally show ?thesis .
next
  case False
  then have neg: "a < 0" by simp
  then have q: "real_of_int a / real_of_int b < 0" using b by (simp add: divide_neg_pos)
  have "\<lceil>real_of_int a / real_of_int b\<rceil> = - \<lfloor>real_of_int (- a) / real_of_int b\<rfloor>"
    by (simp add: ceiling_def)
  also have "\<dots> = - ((- a) div b)" by (simp only: floor_divide_of_int_eq)
  finally have c: "\<lceil>real_of_int a / real_of_int b\<rceil> = - ((- a) div b)" .
  have "js_rem_num (of_int a) (of_int b) = of_int (- ((- a) - b * ((- a) div b)))"
    unfolding js_rem_num_def using q by (simp add: c)
  also have "(- a) - b * ((- a) div b) = (- a) mod b" by (rule minus_mult_div_eq_mod)
  also have "- ((- a) mod b) = js_rem a b" using neg b by (simp add: js_rem_def)
  finally show ?thesis .
qed

lemma pad2_num_of_int: "pad2_num numberToString (of_int n) = pad2 n"
  by (simp add: pad2_num_def pad2_def String_num_def)

lemma toHHMM_num_of_int: "toHHMM_num numberToString (of_int minutes) = toHHMM minutes"
proof -
  define r where "r = js_rem (js_rem minutes (24 * 60) + 24 * 60) (24 * 60)"
  have a: "js_rem_num (of_int minutes) 1440 = of_int (js_rem minutes 1440)"
    using js_rem_num_of_int [of 1440 minutes] by simp
  have b: "js_rem_num (of_int (js_rem minutes (24 * 60) + 24 * 60)) (24 * 60) = of_int r"
    unfolding r_def using js_rem_num_of_int [of "24 * 60" "js_rem minutes (24 * 60) + 24 * 60"]
    by simp
  have m: "js_rem_num (js_rem_num (of_int minutes) (24 * 60) + 24 * 60) (24 * 60) = of_int r"
    using b by (simp add: a)
  have h: "real_of_int \<lfloor>real_of_int r / 60\<rfloor> = of_int (r div 60)"
    using floor_divide_of_int_eq [of r 60, where ?'a = real] by simp
  have mm: "js_rem_num (of_int r) 60 = of_int (js_rem r 60)"
    using js_rem_num_of_int [of 60 r] by simp
  show ?thesis
    unfolding toHHMM_num_def toHHMM_def Let_def m h mm r_def [symmetric]
    by (simp only: pad2_num_of_int)
qed

subsection \<open>Facts about the train objects and the assignment loop\<close>

lemma forget_assigned_update: "forget_assigned (t\<lparr>assignedPlatform := v\<rparr>) = forget_assigned t"
  by (simp add: forget_assigned_def)

lemma forget_assigned_fields:
  assumes "forget_assigned t' = forget_assigned t"
  shows "id_f t' = id_f t" "trainNo t' = trainNo t" "from_f t' = from_f t" "to_f t' = to_f t"
    "arrive t' = arrive t" "depart t' = depart t" "delayMin t' = delayMin t"
    "status t' = status t" "platform t' = platform t"
proof -
  have a: "\<And>f. f (forget_assigned t') = f (forget_assigned t)" using assms by simp
  show "id_f t' = id_f t" using a [of id_f] by (simp add: forget_assigned_def)
  show "trainNo t' = trainNo t" using a [of trainNo] by (simp add: forget_assigned_def)
  show "from_f t' = from_f t" using a [of from_f] by (simp add: forget_assigned_def)
  show "to_f t' = to_f t" using a [of to_f] by (simp add: forget_assigned_def)
  show "arrive t' = arrive t" using a [of arrive] by (simp add: forget_assigned_def)
  show "depart t' = depart t" using a [of depart] by (simp add: forget_assigned_def)
  show "delayMin t' = delayMin t" using a [of delayMin] by (simp add: forget_assigned_def)
  show "status t' = status t" using a [of status] by (simp add: forget_assigned_def)
  show "platform t' = platform t" using a [of platform] by (simp add: forget_assigned_def)
qed

lemma forget_assigned_timeWithDelay:
  assumes "forget_assigned t' = forget_assigned t"
  shows "timeWithDelay t' = timeWithDelay t"
  unfolding timeWithDelay_def
  by (simp only: forget_assigned_fields(5,6,7,8) [OF assms])

lemma forget_assigned_eq_iff:
  "forget_assigned t' = forget_assigned t \<longleftrightarrow> t'\<lparr>assignedPlatform := assignedPlatform t\<rparr> = t"
  by (cases t, cases t') (auto simp: forget_assigned_def)

lemma snd_assign_step:
  "snd (assign_step N srt k (pe, ts)) =
     ts[k := (ts ! k)\<lparr>assignedPlatform := Some (int (choose_platform N srt pe ts k) + 1)\<rparr>]"
  by (simp add: assign_step_def Let_def)

lemma fst_assign_step:
  "fst (assign_step N srt k (pe, ts)) =
     pe_set pe (choose_platform N srt pe ts k)
       (Math_max (pe_get pe (choose_platform N srt pe ts k)) (Fin (snd (timeWithDelay (ts ! k)))))"
  by (simp add: assign_step_def Let_def)

lemma forget_assign_step:
  "map forget_assigned (snd (assign_step N srt k st)) = map forget_assigned (snd st)"
proof (cases st)
  case (Pair pe ts)
  show ?thesis
  proof (cases "k < length ts")
    case True
    then show ?thesis
      unfolding Pair snd_assign_step snd_conv
      by (simp add: map_update forget_assigned_update list_update_same_conv)
  next
    case False
    then have "length ts \<le> k" by simp
    then show ?thesis
      unfolding Pair snd_assign_step snd_conv by (simp only: list_update_beyond)
  qed
qed

lemma forget_assign_fold:
  "map forget_assigned (snd (fold (assign_step N srt) ks st)) = map forget_assigned (snd st)"
  by (induction ks arbitrary: st) (simp_all add: forget_assign_step)

lemma forget_assign_loop: "map forget_assigned (snd (assign_loop ts N)) = map forget_assigned ts"
  by (simp add: assign_loop_def forget_assign_fold)

lemma length_assign_loop: "length (snd (assign_loop ts N)) = length ts"
proof -
  have "length (map forget_assigned (snd (assign_loop ts N))) = length (map forget_assigned ts)"
    by (simp only: forget_assign_loop)
  then show ?thesis by simp
qed

lemma nth_forget_assign_loop:
  "i < length ts \<Longrightarrow> forget_assigned (snd (assign_loop ts N) ! i) = forget_assigned (ts ! i)"
proof -
  assume i: "i < length ts"
  then have "forget_assigned (snd (assign_loop ts N) ! i) = map forget_assigned (snd (assign_loop ts N)) ! i"
    by (simp add: length_assign_loop)
  also have "\<dots> = map forget_assigned ts ! i" by (simp only: forget_assign_loop)
  also have "\<dots> = forget_assigned (ts ! i)" using i by simp
  finally show ?thesis .
qed

lemma set_sorted_refs: "set (sorted_refs ts) = {0 ..< length ts}"
  by (simp add: sorted_refs_def)

lemma clamp_range: "1 \<le> clamp pl 1 (int N)"
  by (simp add: clamp_def)

lemma clamp_upper: "1 \<le> N \<Longrightarrow> clamp pl 1 (int N) \<le> int N"
  by (simp add: clamp_def)

lemma first_free_bound: "first_free pe N a = Some p \<Longrightarrow> p < N"
  by (auto simp: first_free_def find_Some_iff)

lemma earliest_fold_bound:
  "\<forall>i \<in> set is. i < N \<Longrightarrow> b < N \<Longrightarrow> fst (fold (earliest_step pe) is (b, e)) < N"
  by (induction "is" arbitrary: b e) (simp_all add: earliest_step_def)

lemma earliest_bound: "1 \<le> N \<Longrightarrow> earliest pe N < N"
  unfolding earliest_def by (rule earliest_fold_bound) simp_all

lemma choose_platform_auto:
  "first_free pe N (fst (timeWithDelay (ts ! k))) = None \<Longrightarrow>
     platform (ts ! k) = None \<or> some_conflict ts srt k \<Longrightarrow>
     choose_platform N srt pe ts k = earliest pe N"
  "first_free pe N (fst (timeWithDelay (ts ! k))) = Some p \<Longrightarrow>
     platform (ts ! k) = None \<or> some_conflict ts srt k \<Longrightarrow>
     choose_platform N srt pe ts k = p"
  by (cases "platform (ts ! k)"; simp add: choose_platform_def Let_def)+

lemma choose_platform_manual:
  "platform (ts ! k) = Some pl \<Longrightarrow> \<not> some_conflict ts srt k \<Longrightarrow>
     choose_platform N srt pe ts k = nat (clamp pl 1 (int N) - 1)"
  by (simp add: choose_platform_def Let_def)

lemma choose_platform_bound:
  assumes N: "1 \<le> N"
  shows "choose_platform N srt pe ts k < N"
proof (cases "platform (ts ! k) = None \<or> some_conflict ts srt k")
  case True
  show ?thesis
  proof (cases "first_free pe N (fst (timeWithDelay (ts ! k)))")
    case None
    then show ?thesis using True earliest_bound [OF N] by (simp add: choose_platform_auto)
  next
    case (Some p)
    then show ?thesis using True first_free_bound [OF Some] by (simp add: choose_platform_auto)
  qed
next
  case False
  then obtain pl where pl: "platform (ts ! k) = Some pl" and nc: "\<not> some_conflict ts srt k"
    by auto
  have "nat (clamp pl 1 (int N) - 1) < N"
    using clamp_range [of pl N] clamp_upper [OF N, of pl] by linarith
  then show ?thesis by (simp add: choose_platform_manual [OF pl nc])
qed

lemma assign_step_in_range:
  assumes "1 \<le> N" "k < length ts"
  shows "in_range N (snd (assign_step N srt k (pe, ts)) ! k)"
  using assms choose_platform_bound [OF assms(1), of srt pe ts k]
  by (simp add: snd_assign_step in_range_def)

lemma assign_step_other:
  "j \<noteq> k \<Longrightarrow> snd (assign_step N srt k (pe, ts)) ! j = ts ! j"
  by (simp add: snd_assign_step)

lemma length_assign_step: "length (snd (assign_step N srt k st)) = length (snd st)"
proof -
  have "length (map forget_assigned (snd (assign_step N srt k st))) = length (map forget_assigned (snd st))"
    by (simp only: forget_assign_step)
  then show ?thesis by simp
qed

lemma assign_fold_in_range:
  assumes "1 \<le> N"
  shows "\<forall>k \<in> set ks. k < length (snd st) \<Longrightarrow> j \<in> set ks \<or> in_range N (snd st ! j)
    \<Longrightarrow> in_range N (snd (fold (assign_step N srt) ks st) ! j)"
proof (induction ks arbitrary: st)
  case Nil
  then show ?case by simp
next
  case (Cons k ks)
  obtain pe ts where st: "st = (pe, ts)" by (cases st)
  let ?st1 = "assign_step N srt k st"
  have len: "length (snd ?st1) = length (snd st)" by (rule length_assign_step)
  have k: "k < length ts" using Cons.prems(1) st by simp
  have "j \<in> set ks \<or> in_range N (snd ?st1 ! j)"
  proof (cases "j = k")
    case True
    then show ?thesis using assign_step_in_range [OF assms k] st by simp
  next
    case False
    then show ?thesis using Cons.prems(2) st by (auto simp: assign_step_other)
  qed
  moreover have "\<forall>k \<in> set ks. k < length (snd ?st1)" using Cons.prems(1) len by simp
  ultimately have "in_range N (snd (fold (assign_step N srt) ks ?st1) ! j)"
    by (rule Cons.IH [rotated])
  then show ?case by simp
qed

lemma assign_loop_in_range:
  "1 \<le> N \<Longrightarrow> i < length ts \<Longrightarrow> in_range N (snd (assign_loop ts N) ! i)"
  unfolding assign_loop_def
  by (rule assign_fold_in_range) (simp_all add: set_sorted_refs)

lemma pe_get_set_same: "pe_get (pe_set pe i v) i = v"
  by (simp add: pe_get_def pe_set_def nth_append)

lemma pe_get_set_other: "j \<noteq> i \<Longrightarrow> pe_get (pe_set pe i v) j = pe_get pe j"
  by (auto simp: pe_get_def pe_set_def nth_append nth_Cons')

lemma nth_forget_eq:
  assumes "map forget_assigned ts' = map forget_assigned ts" "j < length ts"
  shows "forget_assigned (ts' ! j) = forget_assigned (ts ! j)"
proof -
  have len: "length ts' = length ts"
    using arg_cong [OF assms(1), of length] by simp
  have "forget_assigned (ts' ! j) = map forget_assigned ts' ! j"
    using assms(2) len by simp
  also have "\<dots> = map forget_assigned ts ! j" by (simp only: assms(1))
  also have "\<dots> = forget_assigned (ts ! j)" using assms(2) by simp
  finally show ?thesis .
qed

lemma some_conflict_forget:
  assumes eq: "map forget_assigned ts' = map forget_assigned ts"
    and srt: "\<forall>j \<in> set srt. j < length ts" and k: "k < length ts"
  shows "some_conflict ts' srt k = some_conflict ts srt k"
proof -
  have fk: "forget_assigned (ts' ! k) = forget_assigned (ts ! k)"
    by (rule nth_forget_eq [OF eq k])
  have fj: "forget_assigned (ts' ! j) = forget_assigned (ts ! j)" if "j \<in> set srt" for j
    using nth_forget_eq [OF eq] srt that by blast
  have "(\<exists>j \<in> set srt. j \<noteq> k \<and> platform (ts' ! j) = platform (ts' ! k) \<and>
           intervalsOverlap (fst (timeWithDelay (ts' ! j))) (snd (timeWithDelay (ts' ! j)))
             (fst (timeWithDelay (ts' ! k))) (snd (timeWithDelay (ts' ! k))))
      = (\<exists>j \<in> set srt. j \<noteq> k \<and> platform (ts ! j) = platform (ts ! k) \<and>
           intervalsOverlap (fst (timeWithDelay (ts ! j))) (snd (timeWithDelay (ts ! j)))
             (fst (timeWithDelay (ts ! k))) (snd (timeWithDelay (ts ! k))))"
  proof (rule bex_cong [OF refl])
    fix j assume j: "j \<in> set srt"
    show "(j \<noteq> k \<and> platform (ts' ! j) = platform (ts' ! k) \<and>
           intervalsOverlap (fst (timeWithDelay (ts' ! j))) (snd (timeWithDelay (ts' ! j)))
             (fst (timeWithDelay (ts' ! k))) (snd (timeWithDelay (ts' ! k))))
      = (j \<noteq> k \<and> platform (ts ! j) = platform (ts ! k) \<and>
           intervalsOverlap (fst (timeWithDelay (ts ! j))) (snd (timeWithDelay (ts ! j)))
             (fst (timeWithDelay (ts ! k))) (snd (timeWithDelay (ts ! k))))"
      by (simp only: forget_assigned_timeWithDelay [OF fk] forget_assigned_timeWithDelay [OF fj [OF j]]
          forget_assigned_fields(9) [OF fk] forget_assigned_fields(9) [OF fj [OF j]])
  qed
  then show ?thesis by (simp only: some_conflict_def list_ex_iff)
qed

lemma assign_step_manual:
  assumes "k < length ts" "platform (ts ! k) = Some pl" "\<not> some_conflict ts srt k"
  shows "assignedPlatform (snd (assign_step N srt k (pe, ts)) ! k) = Some (clamp pl 1 (int N))"
  using assms(1) clamp_range [of pl N]
  by (simp add: snd_assign_step choose_platform_manual [OF assms(2,3)])

lemma assign_fold_manual:
  assumes pl: "platform (ts ! k) = Some pl" and nc: "\<not> some_conflict ts srt k"
    and srt: "\<forall>j \<in> set srt. j < length ts" and k: "k < length ts"
  shows "map forget_assigned (snd st) = map forget_assigned ts \<Longrightarrow>
    k \<in> set ks \<or> assignedPlatform (snd st ! k) = Some (clamp pl 1 (int N)) \<Longrightarrow>
    assignedPlatform (snd (fold (assign_step N srt) ks st) ! k) = Some (clamp pl 1 (int N))"
proof (induction ks arbitrary: st)
  case Nil
  then show ?case by simp
next
  case (Cons j ks)
  obtain pe ts1 where st: "st = (pe, ts1)" by (cases st)
  let ?st1 = "assign_step N srt j st"
  have eq: "map forget_assigned ts1 = map forget_assigned ts" using Cons.prems(1) st by simp
  have eq1: "map forget_assigned (snd ?st1) = map forget_assigned ts"
    using Cons.prems(1) by (simp only: forget_assign_step)
  have len: "length ts1 = length ts" using arg_cong [OF eq, of length] by simp
  have "k \<in> set ks \<or> assignedPlatform (snd ?st1 ! k) = Some (clamp pl 1 (int N))"
  proof (cases "j = k")
    case True
    have p1: "platform (ts1 ! k) = Some pl"
      using forget_assigned_fields(9) [OF nth_forget_eq [OF eq k]] pl by simp
    have c1: "\<not> some_conflict ts1 srt k"
      using some_conflict_forget [OF eq srt k] nc by simp
    have k1: "k < length ts1" using k len by simp
    show ?thesis using assign_step_manual [OF k1 p1 c1] True st by simp
  next
    case False
    then have "snd ?st1 ! k = ts1 ! k" unfolding st by (simp add: assign_step_other)
    then show ?thesis using Cons.prems(2) False st by auto
  qed
  then have "assignedPlatform (snd (fold (assign_step N srt) ks ?st1) ! k) = Some (clamp pl 1 (int N))"
    by (rule Cons.IH [OF eq1])
  then show ?case by simp
qed

lemma assign_loop_manual:
  assumes "k < length ts" "platform (ts ! k) = Some pl" "\<not> some_conflict ts (sorted_refs ts) k"
  shows "assignedPlatform (snd (assign_loop ts N) ! k) = Some (clamp pl 1 (int N))"
  unfolding assign_loop_def
  by (rule assign_fold_manual [OF assms(2,3) _ assms(1)]) (simp_all add: set_sorted_refs assms(1))

lemma find_id_None: "find_id i ts = None \<longleftrightarrow> i \<notin> id_f ` set ts"
  by (induction ts) auto

lemma computeDerived_contains:
  assumes "tr \<in> set (trains s)"
  shows "\<exists>tr' \<in> set (trains (computeDerived s)).
           forget_assigned tr' = forget_assigned (derive_status (virtualMinutes (sim s)) tr)"
proof -
  let ?vm = "virtualMinutes (sim s)"
  let ?ts1 = "map (derive_status ?vm) (trains s)"
  let ?ts2 = "snd (assign_loop ?ts1 (numPlatforms s))"
  obtain i where i: "i < length (trains s)" and tr: "trains s ! i = tr"
    using assms by (auto simp: in_set_conv_nth)
  have i1: "i < length ?ts1" using i by simp
  have "forget_assigned (?ts2 ! i) = forget_assigned (?ts1 ! i)"
    by (rule nth_forget_assign_loop [OF i1])
  also have "?ts1 ! i = derive_status ?vm tr" using i tr by simp
  finally have f: "forget_assigned (?ts2 ! i) = forget_assigned (derive_status ?vm tr)" .
  have "i < length ?ts2" using i1 by (simp only: length_assign_loop)
  then have "?ts2 ! i \<in> set ?ts2" by (rule nth_mem)
  moreover have "set (trains (computeDerived s)) = set ?ts2"
    by (simp add: computeDerived_def assignPlatforms_def Let_def)
  ultimately show ?thesis using f by blast
qed

text \<open>The whole pass of \<^verbatim>\<open>computeDerived\<close>, up to the order of the list and the derived
  field: the trains it leaves are the trains it found, each with the status that the status
  loop gives it, counted with multiplicity.\<close>

lemma computeDerived_trains_mset:
  "mset (map forget_assigned (trains (computeDerived s)))
     = mset (map (\<lambda>tr. forget_assigned (derive_status (virtualMinutes (sim s)) tr)) (trains s))"
proof -
  let ?ts1 = "map (derive_status (virtualMinutes (sim s))) (trains s)"
  let ?ts2 = "snd (assign_loop ?ts1 (numPlatforms s))"
  have "trains (computeDerived s) = sort_key (\<lambda>t. snd (timeWithDelay t)) ?ts2"
    by (simp add: computeDerived_def assignPlatforms_def Let_def)
  then have "mset (map forget_assigned (trains (computeDerived s))) = mset (map forget_assigned ?ts2)"
    by simp
  also have "\<dots> = mset (map forget_assigned ?ts1)" by (simp only: forget_assign_loop)
  also have "\<dots> = mset (map (\<lambda>tr. forget_assigned (derive_status (virtualMinutes (sim s)) tr)) (trains s))"
    by (simp add: comp_def)
  finally show ?thesis .
qed

lemma no_conflict_alone: "\<not> some_conflict [t] [0] 0"
  by (simp add: some_conflict_def)

lemma sorted_refs_single: "sorted_refs [t] = [0]"
  by (simp add: sorted_refs_def)

lemma derive_status_spec:
  "status tr \<noteq> CANCELLED \<Longrightarrow>
     derive_status vm tr = tr\<lparr>status := spec_status vm (spec_window tr) (delayMin tr)\<rparr>"
  by (simp add: derive_status_def spec_status_def spec_window_def timeWithDelay_def Let_def)

lemma derive_status_cancelled: "status tr = CANCELLED \<Longrightarrow> derive_status vm tr = tr"
  by (simp add: derive_status_def)

lemma computeDerived_empty: "trains s = [] \<Longrightarrow> computeDerived s = s"
  by (simp add: computeDerived_def assignPlatforms_def assign_loop_def sorted_refs_def Let_def)

lemma sorted_refs_seed_pair: "sorted_refs [train_12001, train_12002] = [0, 1]"
  by (simp add: sorted_refs_def timeWithDelay_def train_12001_def train_12002_def upt_rec)

section \<open>The claims\<close>

subsection \<open>C1: a honoured manual request and the free-at array\<close>

text \<open>C1, as the code has it. When the train at position \<open>k\<close> carries a manual request
  \<open>pl\<close> and no other train with the same request overlaps it, the request is honoured
  whatever \<^verbatim>\<open>platformEnd\<close> holds: the chosen index is \<open>clamp(pl, 1, N) - 1\<close> for every
  \<^verbatim>\<open>platformEnd\<close>, so the array is not consulted for the choice. It is updated all the
  same, by the statement that ends every round of the loop: the free-at time of the chosen
  platform becomes \<^verbatim>\<open>Math.max\<close> of its old value and the effective departure, and the
  free-at time of every other platform keeps its value.\<close>

theorem manual_honored_free_at:
  assumes "k < length ts" "platform (ts ! k) = Some pl" "\<not> some_conflict ts srt k"
  shows "choose_platform N srt platformEnd ts k = nat (clamp pl 1 (int N) - 1)
    \<and> assignedPlatform (snd (assign_step N srt k (platformEnd, ts)) ! k) = Some (clamp pl 1 (int N))
    \<and> pe_get (fst (assign_step N srt k (platformEnd, ts))) (nat (clamp pl 1 (int N) - 1))
        = Math_max (pe_get platformEnd (nat (clamp pl 1 (int N) - 1))) (Fin (snd (timeWithDelay (ts ! k))))
    \<and> (\<forall>i. i \<noteq> nat (clamp pl 1 (int N) - 1) \<longrightarrow>
          pe_get (fst (assign_step N srt k (platformEnd, ts))) i = pe_get platformEnd i)"
proof -
  have c: "choose_platform N srt platformEnd ts k = nat (clamp pl 1 (int N) - 1)"
    by (rule choose_platform_manual [OF assms(2,3)])
  have a: "assignedPlatform (snd (assign_step N srt k (platformEnd, ts)) ! k) = Some (clamp pl 1 (int N))"
    by (rule assign_step_manual [OF assms])
  show ?thesis
    unfolding fst_assign_step c
    using a by (simp add: pe_get_set_same pe_get_set_other)
qed

text \<open>The theorem at the first seed train alone, with two platforms: the train gets platform 1,
  whose free-at time becomes 500; platform 2 stays at \<^verbatim>\<open>-Infinity\<close>.\<close>

theorem manual_honored_free_at_witness:
  "0 < length [train_12001] \<and> platform ([train_12001] ! 0) = Some 1
   \<and> \<not> some_conflict [train_12001] [0] 0
   \<and> assignedPlatform (snd (assign_step 2 [0] 0 ([NegInf, NegInf], [train_12001])) ! 0) = Some 1
   \<and> pe_get (fst (assign_step 2 [0] 0 ([NegInf, NegInf], [train_12001]))) 0 = Fin 500
   \<and> pe_get (fst (assign_step 2 [0] 0 ([NegInf, NegInf], [train_12001]))) 1 = NegInf"
proof -
  have h1: "0 < length [train_12001]" by simp
  have h2: "platform ([train_12001] ! 0) = Some 1" by (simp add: train_12001_def)
  have h3: "\<not> some_conflict [train_12001] [0] 0" by (rule no_conflict_alone)
  have c: "clamp 1 1 (int 2) = 1" by (simp add: clamp_def)
  have d: "snd (timeWithDelay ([train_12001] ! 0)) = 500"
    by (simp add: timeWithDelay_def train_12001_def)
  from manual_honored_free_at [OF h1 h2 h3, of 2 "[NegInf, NegInf]"]
  have "assignedPlatform (snd (assign_step 2 [0] 0 ([NegInf, NegInf], [train_12001])) ! 0) = Some 1
    \<and> pe_get (fst (assign_step 2 [0] 0 ([NegInf, NegInf], [train_12001]))) 0 = Fin 500
    \<and> pe_get (fst (assign_step 2 [0] 0 ([NegInf, NegInf], [train_12001]))) 1 = NegInf"
    unfolding c d by (simp add: pe_get_def)
  with h1 h2 h3 show ?thesis by simp
qed

text \<open>C1 as stated fails. Train 12001 requests platform 1 and is alone, so the request is
  honoured; the round that assigns it turns \<^verbatim>\<open>platformEnd\<close> from
  \<open>[-Infinity, -Infinity]\<close> into \<open>[500, -Infinity]\<close>.\<close>

theorem manual_honored_free_at_counterexample:
  "platform train_12001 = Some 1
   \<and> \<not> some_conflict [train_12001] (sorted_refs [train_12001]) 0
   \<and> replicate 2 NegInf = [NegInf, NegInf]
   \<and> fst (assign_step 2 (sorted_refs [train_12001]) 0 (replicate 2 NegInf, [train_12001]))
       = [Fin 500, NegInf]
   \<and> fst (assign_step 2 (sorted_refs [train_12001]) 0 (replicate 2 NegInf, [train_12001]))
       \<noteq> replicate 2 NegInf"
proof -
  have a: "platform train_12001 = Some 1" by (simp add: train_12001_def)
  have b: "\<not> some_conflict [train_12001] [0] 0" by (rule no_conflict_alone)
  have r: "replicate 2 NegInf = [NegInf, NegInf]" by (simp add: numeral_2_eq_2)
  have c: "choose_platform 2 [0] [NegInf, NegInf] [train_12001] 0 = 0"
    using choose_platform_manual [of "[train_12001]" 0 1 "[0]" 2 "[NegInf, NegInf]"] a b
    by (simp add: clamp_def)
  have d: "snd (timeWithDelay train_12001) = 500"
    by (simp add: timeWithDelay_def train_12001_def)
  have e: "fst (assign_step 2 [0] 0 ([NegInf, NegInf], [train_12001])) = [Fin 500, NegInf]"
    unfolding fst_assign_step c by (simp add: d pe_get_def pe_set_def)
  show ?thesis unfolding sorted_refs_single r using a b e by simp
qed

text \<open>The update shows in the assignments. Train 12002 (495 to 510, no request) arrives
  while train 12001 stands at the platform it requested; the free-at time 500 that the
  manual path wrote sends train 12002 to platform 2.\<close>

lemma seed_pair_assignment:
  "assign_loop [train_12001, train_12002] 2
     = ([Fin 500, Fin 510],
        [train_12001\<lparr>assignedPlatform := Some 1\<rparr>, train_12002\<lparr>assignedPlatform := Some 2\<rparr>])"
proof -
  have r: "replicate 2 NegInf = [NegInf, NegInf]" by (simp add: numeral_2_eq_2)
  have c0: "choose_platform 2 [0, 1] pe [train_12001, train_12002] 0 = 0" for pe
    by (simp add: choose_platform_def some_conflict_def Let_def clamp_def train_12001_def
        train_12002_def)
  have s0: "assign_step 2 [0, 1] 0 ([NegInf, NegInf], [train_12001, train_12002])
      = ([Fin 500, NegInf], [train_12001\<lparr>assignedPlatform := Some 1\<rparr>, train_12002])"
    unfolding assign_step_def Let_def prod.case c0
    by (simp add: pe_get_def pe_set_def timeWithDelay_def train_12001_def)
  have c1: "choose_platform 2 [0, 1] [Fin 500, NegInf] [t, train_12002] 1 = 1" for t
    by (simp add: choose_platform_def Let_def first_free_def pe_get_def timeWithDelay_def
        train_12002_def upt_rec)
  have s1: "assign_step 2 [0, 1] 1 ([Fin 500, NegInf], [train_12001\<lparr>assignedPlatform := Some 1\<rparr>, train_12002])
      = ([Fin 500, Fin 510],
         [train_12001\<lparr>assignedPlatform := Some 1\<rparr>, train_12002\<lparr>assignedPlatform := Some 2\<rparr>])"
    unfolding assign_step_def Let_def prod.case c1
    by (simp add: pe_get_def pe_set_def timeWithDelay_def train_12002_def)
  show ?thesis
    unfolding assign_loop_def sorted_refs_seed_pair r by (simp only: fold_simps s0 s1)
qed

subsection \<open>C2: the status by first match\<close>

text \<open>C2. For a train of the store that is not CANCELLED, the status loop gives the status of
  the spec's rule, taken on the window \<open>[arrive + delay, depart + delay]\<close> when the status
  was DELAYED and \<open>[arrive, depart]\<close> otherwise: DEPARTED from \<open>d + 5\<close> on, else BOARDING
  from \<open>d - 5\<close> on, else ARRIVED from \<open>a\<close> on, else DELAYED with a positive delay, else
  ON_TIME. This holds at every value of the clock, whole or not, and the list that \<^verbatim>\<open>computeDerived\<close> leaves
  holds the train with that status and every other field but \<^verbatim>\<open>assignedPlatform\<close> as it
  was.\<close>

theorem status_first_match:
  assumes "tr \<in> set (trains s)" "status tr \<noteq> CANCELLED"
  shows "derive_status vm tr = tr\<lparr>status := spec_status vm (spec_window tr) (delayMin tr)\<rparr>
    \<and> (\<exists>tr' \<in> set (trains (computeDerived s)).
          tr'\<lparr>assignedPlatform := assignedPlatform tr\<rparr>
            = tr\<lparr>status := spec_status (virtualMinutes (sim s)) (spec_window tr) (delayMin tr)\<rparr>)"
proof -
  let ?r = "\<lambda>vm. tr\<lparr>status := spec_status vm (spec_window tr) (delayMin tr)\<rparr>"
  have d: "derive_status vm tr = ?r vm" for vm
    by (rule derive_status_spec [OF assms(2)])
  obtain tr' where m: "tr' \<in> set (trains (computeDerived s))"
    and f: "forget_assigned tr' = forget_assigned (derive_status (virtualMinutes (sim s)) tr)"
    using computeDerived_contains [OF assms(1)] by blast
  have "tr'\<lparr>assignedPlatform := assignedPlatform (?r (virtualMinutes (sim s)))\<rparr> = ?r (virtualMinutes (sim s))"
    using f unfolding d by (simp only: forget_assigned_eq_iff)
  then have "tr'\<lparr>assignedPlatform := assignedPlatform tr\<rparr> = ?r (virtualMinutes (sim s))" by simp
  with m d show ?thesis by blast
qed

text \<open>The theorem at train 12001 (window 490 to 500) and minute 495: BOARDING.\<close>

theorem status_first_match_witness:
  "train_12001 \<in> set (trains state0) \<and> status train_12001 \<noteq> CANCELLED
   \<and> derive_status 495 train_12001 = train_12001\<lparr>status := BOARDING\<rparr>"
proof -
  have h1: "train_12001 \<in> set (trains state0)" by (simp add: state0_def)
  have h2: "status train_12001 \<noteq> CANCELLED" by (simp add: train_12001_def)
  have sp: "spec_status 495 (spec_window train_12001) (delayMin train_12001) = BOARDING"
    by (simp add: spec_status_def spec_window_def train_12001_def Let_def)
  from status_first_match [OF h1 h2, of 495]
  have "derive_status 495 train_12001 = train_12001\<lparr>status := BOARDING\<rparr>"
    unfolding sp by (rule conjunct1)
  with h1 h2 show ?thesis by (intro conjI)
qed

subsection \<open>C3: CANCELLED is absorbing\<close>

text \<open>C3. A train of the store whose status is CANCELLED keeps it: the status loop leaves it
  CANCELLED at every value of the clock, whatever its delay and window, and the list that
  \<^verbatim>\<open>computeDerived\<close> leaves holds the train, still CANCELLED, with every field but
  \<^verbatim>\<open>assignedPlatform\<close> as it was.\<close>

theorem cancelled_absorbing:
  assumes "tr \<in> set (trains s)" "status tr = CANCELLED"
  shows "status (derive_status vm tr) = CANCELLED
    \<and> (\<exists>tr' \<in> set (trains (computeDerived s)).
          status tr' = CANCELLED \<and> tr'\<lparr>assignedPlatform := assignedPlatform tr\<rparr> = tr)"
proof -
  have d: "derive_status vm tr = tr" for vm
    by (rule derive_status_cancelled [OF assms(2)])
  obtain tr' where m: "tr' \<in> set (trains (computeDerived s))"
    and f: "forget_assigned tr' = forget_assigned tr"
    using computeDerived_contains [OF assms(1)] unfolding d by blast
  have e: "tr'\<lparr>assignedPlatform := assignedPlatform tr\<rparr> = tr"
    using f by (simp only: forget_assigned_eq_iff)
  have "status tr' = CANCELLED" using forget_assigned_fields(8) [OF f] assms(2) by simp
  with m e show ?thesis unfolding d using assms(2) by blast
qed

text \<open>The theorem at train 12001 once cancelled, at minute 600, long after its departure.\<close>

theorem cancelled_absorbing_witness:
  "train_12001\<lparr>status := CANCELLED\<rparr> \<in> set (trains (state0\<lparr>trains := [train_12001\<lparr>status := CANCELLED\<rparr>]\<rparr>))
   \<and> status (train_12001\<lparr>status := CANCELLED\<rparr>) = CANCELLED
   \<and> status (derive_status 600 (train_12001\<lparr>status := CANCELLED\<rparr>)) = CANCELLED"
proof -
  have h1: "train_12001\<lparr>status := CANCELLED\<rparr>
      \<in> set (trains (state0\<lparr>trains := [train_12001\<lparr>status := CANCELLED\<rparr>]\<rparr>))" by simp
  have h2: "status (train_12001\<lparr>status := CANCELLED\<rparr>) = CANCELLED" by simp
  from cancelled_absorbing [OF h1 h2, of 600]
  have "status (derive_status 600 (train_12001\<lparr>status := CANCELLED\<rparr>)) = CANCELLED"
    by (rule conjunct1)
  with h1 h2 show ?thesis by (intro conjI)
qed

subsection \<open>C4: every train gets a platform between 1 and N\<close>

text \<open>C4. With at least one platform, every train object ends the assignment pass with an
  assigned platform between 1 and the platform count, in \<^verbatim>\<open>trains\<close> and in the returned
  sorted copy, however many trains there are; and no train is lost.\<close>

theorem assigned_platform_in_range:
  assumes "1 \<le> N"
  shows "length (snd (assignPlatforms ts N)) = length ts
    \<and> (\<forall>t \<in> set (snd (assignPlatforms ts N)) \<union> set (fst (assignPlatforms ts N)).
          \<exists>a. assignedPlatform t = Some a \<and> 1 \<le> a \<and> a \<le> int N)"
proof -
  let ?ts' = "snd (assign_loop ts N)"
  have len: "length ?ts' = length ts" by (rule length_assign_loop)
  have r: "in_range N (?ts' ! i)" if "i < length ts" for i
    using assign_loop_in_range [OF assms that] .
  have a: "\<exists>a. assignedPlatform t = Some a \<and> 1 \<le> a \<and> a \<le> int N" if "in_range N t" for t
    using that by (cases "assignedPlatform t") (simp_all add: in_range_def)
  have s: "in_range N t" if "t \<in> set ?ts'" for t
    using that r len by (auto simp: in_set_conv_nth)
  have f: "in_range N t" if "t \<in> set (map (\<lambda>i. ?ts' ! i) (sorted_refs ts))" for t
    using that r by (auto simp: set_sorted_refs)
  show ?thesis
    using len a s f by (auto simp: assignPlatforms_def Let_def)
qed

text \<open>The theorem at two overlapping trains and one platform: both get platform 1.\<close>

theorem assigned_platform_in_range_witness:
  "(1::nat) \<le> 1
   \<and> map assignedPlatform (snd (assignPlatforms [train_12001, train_12002] 1)) = [Some 1, Some 1]"
proof -
  let ?ts' = "snd (assignPlatforms [train_12001, train_12002] 1)"
  have h: "(1::nat) \<le> 1" by simp
  note r = assigned_platform_in_range [OF h, of "[train_12001, train_12002]"]
  from r have len: "length ?ts' = 2" by simp
  then obtain x y where xy: "?ts' = [x, y]"
    by (cases ?ts'; simp) (rename_tac a as, case_tac as; simp)
  from r have "\<forall>t \<in> set ?ts'. \<exists>a. assignedPlatform t = Some a \<and> 1 \<le> a \<and> a \<le> int 1"
    by blast
  then have "assignedPlatform x = Some 1" "assignedPlatform y = Some 1"
    unfolding xy by auto
  then show ?thesis unfolding xy using h by simp
qed

subsection \<open>C5: the boundaries of the status rule\<close>

text \<open>C5, as the code has it. For a train with arrival 480, departure 500, no delay and a
  status that is neither DELAYED nor CANCELLED, the status loop gives BOARDING at minute
  495 and still BOARDING at minute 500, ARRIVED at minute 494 and ON_TIME at minute 479;
  it gives DEPARTED exactly when the clock is at 505 or later, so 505 is the first minute
  of DEPARTED. At every clock value, whole or not, the status is DEPARTED from 505 on,
  BOARDING from 495 on, ARRIVED from 480 on and ON_TIME before; and the list that
  \<^verbatim>\<open>computeDerived\<close> leaves holds the train with that status for the clock of the
  state.\<close>

theorem boundary_statuses:
  assumes "arrive tr = 480" "depart tr = 500" "delayMin tr = 0"
    "status tr \<noteq> DELAYED" "status tr \<noteq> CANCELLED"
  shows "status (derive_status 495 tr) = BOARDING
    \<and> status (derive_status 500 tr) = BOARDING
    \<and> status (derive_status 494 tr) = ARRIVED
    \<and> status (derive_status 479 tr) = ON_TIME
    \<and> (\<forall>vm. (status (derive_status vm tr) = DEPARTED) = (505 \<le> vm))
    \<and> (\<forall>vm. derive_status vm tr =
          tr\<lparr>status := (if 505 \<le> vm then DEPARTED else if 495 \<le> vm then BOARDING
                          else if 480 \<le> vm then ARRIVED else ON_TIME)\<rparr>)
    \<and> (tr \<in> set (trains s) \<longrightarrow>
         (\<exists>tr' \<in> set (trains (computeDerived s)).
            tr'\<lparr>assignedPlatform := assignedPlatform tr\<rparr> =
              tr\<lparr>status := (if 505 \<le> virtualMinutes (sim s) then DEPARTED
                              else if 495 \<le> virtualMinutes (sim s) then BOARDING
                              else if 480 \<le> virtualMinutes (sim s) then ARRIVED else ON_TIME)\<rparr>))"
proof -
  let ?rule = "\<lambda>vm :: real. if 505 \<le> vm then DEPARTED else if 495 \<le> vm then BOARDING
                          else if 480 \<le> vm then ARRIVED else ON_TIME"
  have r: "derive_status vm tr = tr\<lparr>status := ?rule vm\<rparr>" for vm
    using assms by (simp add: derive_status_def timeWithDelay_def Let_def)
  have p: "status (derive_status 495 tr) = BOARDING" "status (derive_status 500 tr) = BOARDING"
    "status (derive_status 494 tr) = ARRIVED" "status (derive_status 479 tr) = ON_TIME"
    by (simp_all add: r)
  have d: "(status (derive_status vm tr) = DEPARTED) = (505 \<le> vm)" for vm
    by (simp add: r)
  have w: "\<exists>tr' \<in> set (trains (computeDerived s)).
            tr'\<lparr>assignedPlatform := assignedPlatform tr\<rparr> = tr\<lparr>status := ?rule (virtualMinutes (sim s))\<rparr>"
    if m: "tr \<in> set (trains s)"
  proof -
    obtain tr' where m': "tr' \<in> set (trains (computeDerived s))"
      and f: "forget_assigned tr' = forget_assigned (derive_status (virtualMinutes (sim s)) tr)"
      using computeDerived_contains [OF m] by blast
    have "tr'\<lparr>assignedPlatform := assignedPlatform (tr\<lparr>status := ?rule (virtualMinutes (sim s))\<rparr>)\<rparr>
            = tr\<lparr>status := ?rule (virtualMinutes (sim s))\<rparr>"
      using f unfolding r by (simp only: forget_assigned_eq_iff)
    then have "tr'\<lparr>assignedPlatform := assignedPlatform tr\<rparr> = tr\<lparr>status := ?rule (virtualMinutes (sim s))\<rparr>"
      by simp
    with m' show ?thesis by blast
  qed
  from p d r w show ?thesis by blast
qed

text \<open>The theorem at the boundary train with status ON_TIME, alone in the store: the four
  minutes of the claim, and DEPARTED at minute 505 but not at minute 504.5.\<close>

theorem boundary_statuses_witness:
  "arrive (boundary_train ON_TIME) = 480 \<and> depart (boundary_train ON_TIME) = 500
   \<and> delayMin (boundary_train ON_TIME) = 0 \<and> status (boundary_train ON_TIME) \<noteq> DELAYED
   \<and> status (boundary_train ON_TIME) \<noteq> CANCELLED
   \<and> boundary_train ON_TIME \<in> set (trains (state0\<lparr>trains := [boundary_train ON_TIME]\<rparr>))
   \<and> status (derive_status 495 (boundary_train ON_TIME)) = BOARDING
   \<and> status (derive_status 500 (boundary_train ON_TIME)) = BOARDING
   \<and> status (derive_status 494 (boundary_train ON_TIME)) = ARRIVED
   \<and> status (derive_status 479 (boundary_train ON_TIME)) = ON_TIME
   \<and> status (derive_status 505 (boundary_train ON_TIME)) = DEPARTED
   \<and> status (derive_status (1009 / 2) (boundary_train ON_TIME)) \<noteq> DEPARTED"
proof -
  have h: "arrive (boundary_train ON_TIME) = 480" "depart (boundary_train ON_TIME) = 500"
    "delayMin (boundary_train ON_TIME) = 0" "status (boundary_train ON_TIME) \<noteq> DELAYED"
    "status (boundary_train ON_TIME) \<noteq> CANCELLED"
    by (simp_all add: boundary_train_def)
  have i: "boundary_train ON_TIME \<in> set (trains (state0\<lparr>trains := [boundary_train ON_TIME]\<rparr>))"
    by simp
  note t = boundary_statuses [OF h, of "state0\<lparr>trains := [boundary_train ON_TIME]\<rparr>"]
  from t have p: "status (derive_status 495 (boundary_train ON_TIME)) = BOARDING"
    "status (derive_status 500 (boundary_train ON_TIME)) = BOARDING"
    "status (derive_status 494 (boundary_train ON_TIME)) = ARRIVED"
    "status (derive_status 479 (boundary_train ON_TIME)) = ON_TIME"
    by blast+
  from t have d: "(status (derive_status vm (boundary_train ON_TIME)) = DEPARTED) = (505 \<le> vm)" for vm
    by blast
  have d1: "status (derive_status 505 (boundary_train ON_TIME)) = DEPARTED"
    by (simp add: d)
  have d2: "status (derive_status (1009 / 2) (boundary_train ON_TIME)) \<noteq> DEPARTED"
    by (simp add: d)
  show ?thesis by (intro conjI h i p d1 d2)
qed

text \<open>C5 as stated fails twice. At minute 500 the train is not DEPARTED (it is BOARDING until
  minute 505); and CANCELLED is a status other than DELAYED, for which minute 495 does not
  give BOARDING.\<close>

theorem boundary_statuses_counterexample:
  "arrive (boundary_train ON_TIME) = 480 \<and> depart (boundary_train ON_TIME) = 500
   \<and> delayMin (boundary_train ON_TIME) = 0 \<and> status (boundary_train ON_TIME) \<noteq> DELAYED
   \<and> status (derive_status 500 (boundary_train ON_TIME)) \<noteq> DEPARTED
   \<and> status (boundary_train CANCELLED) \<noteq> DELAYED
   \<and> status (derive_status 495 (boundary_train CANCELLED)) \<noteq> BOARDING"
  by (simp add: derive_status_def timeWithDelay_def Let_def boundary_train_def)

subsection \<open>C6: two manual requests for platform 2\<close>

text \<open>C6. When the train list is two trains that both request platform 2, their effective
  windows do not overlap and there are at least two platforms, both trains end the
  assignment pass with assigned platform 2, in \<^verbatim>\<open>trains\<close> and in the returned sorted
  copy.\<close>

theorem two_manual_requests:
  assumes p1: "platform t1 = Some 2" and p2: "platform t2 = Some 2"
    and no: "\<not> intervalsOverlap (fst (timeWithDelay t1)) (snd (timeWithDelay t1))
                               (fst (timeWithDelay t2)) (snd (timeWithDelay t2))"
    and N: "2 \<le> N"
  shows "map assignedPlatform (snd (assignPlatforms [t1, t2] N)) = [Some 2, Some 2]
    \<and> map assignedPlatform (fst (assignPlatforms [t1, t2] N)) = [Some 2, Some 2]"
proof -
  let ?ts = "[t1, t2]"
  let ?ts' = "snd (assign_loop ?ts N)"
  have set: "set (sorted_refs ?ts) = {0, 1}"
    by (auto simp: set_sorted_refs)
  have no': "\<not> intervalsOverlap (fst (timeWithDelay t2)) (snd (timeWithDelay t2))
                               (fst (timeWithDelay t1)) (snd (timeWithDelay t1))"
    using no by (auto simp: intervalsOverlap_def)
  have c0: "\<not> some_conflict ?ts (sorted_refs ?ts) 0"
    using no' by (simp add: some_conflict_def list_ex_iff set)
  have c1: "\<not> some_conflict ?ts (sorted_refs ?ts) 1"
    using no by (simp add: some_conflict_def list_ex_iff set)
  have cl: "clamp 2 1 (int N) = 2" using N by (simp add: clamp_def)
  have a0: "assignedPlatform (?ts' ! 0) = Some 2"
    using assign_loop_manual [of 0 ?ts 2, OF _ _ c0, of N] p1 by (simp add: cl)
  have a1: "assignedPlatform (?ts' ! 1) = Some 2"
    using assign_loop_manual [of 1 ?ts 2, OF _ _ c1, of N] p2 by (simp add: cl)
  have len: "length ?ts' = 2" by (simp add: length_assign_loop)
  then obtain x y where xy: "?ts' = [x, y]"
    by (cases ?ts'; simp) (rename_tac a as, case_tac as; simp)
  have all: "assignedPlatform (?ts' ! i) = Some 2" if "i \<in> set (sorted_refs ?ts)" for i
    using that a0 a1 unfolding set by auto
  have lr: "length (sorted_refs ?ts) = 2" by (simp add: sorted_refs_def)
  have "map assignedPlatform (map (\<lambda>i. ?ts' ! i) (sorted_refs ?ts))
          = replicate (length (sorted_refs ?ts)) (Some 2)"
    using all by (simp add: map_replicate_const [symmetric] comp_def cong: map_cong)
  then have r: "map assignedPlatform (map (\<lambda>i. ?ts' ! i) (sorted_refs ?ts)) = [Some 2, Some 2]"
    by (simp add: lr numeral_2_eq_2)
  have "map assignedPlatform ?ts' = [Some 2, Some 2]"
    using a0 a1 unfolding xy by simp
  with r show ?thesis by (simp add: assignPlatforms_def Let_def)
qed

text \<open>The theorem at the windows 10 to 20 and 20 to 30, which touch without overlapping, with
  three platforms.\<close>

theorem two_manual_requests_witness:
  "platform (manual_train 10 20) = Some 2 \<and> platform (manual_train 20 30) = Some 2
   \<and> \<not> intervalsOverlap (fst (timeWithDelay (manual_train 10 20))) (snd (timeWithDelay (manual_train 10 20)))
                         (fst (timeWithDelay (manual_train 20 30))) (snd (timeWithDelay (manual_train 20 30)))
   \<and> (2::nat) \<le> 3
   \<and> map assignedPlatform (snd (assignPlatforms [manual_train 10 20, manual_train 20 30] 3))
       = [Some 2, Some 2]"
proof -
  have h1: "platform (manual_train 10 20) = Some 2" by (simp add: manual_train_def)
  have h2: "platform (manual_train 20 30) = Some 2" by (simp add: manual_train_def)
  have h3: "\<not> intervalsOverlap (fst (timeWithDelay (manual_train 10 20))) (snd (timeWithDelay (manual_train 10 20)))
                         (fst (timeWithDelay (manual_train 20 30))) (snd (timeWithDelay (manual_train 20 30)))"
    by (simp add: intervalsOverlap_def timeWithDelay_def manual_train_def)
  have h4: "(2::nat) \<le> 3" by simp
  from two_manual_requests [OF h1 h2 h3 h4]
  have "map assignedPlatform (snd (assignPlatforms [manual_train 10 20, manual_train 20 30] 3))
       = [Some 2, Some 2]" by (rule conjunct1)
  with h1 h2 h3 h4 show ?thesis by (intro conjI)
qed

subsection \<open>C7: an unknown id\<close>

text \<open>C7. When no train of the store has the id, \<^verbatim>\<open>updateTrain\<close>, \<^verbatim>\<open>delayTrain\<close> and
  \<^verbatim>\<open>cancelTrain\<close> return at once: the whole state (train list, announcement log,
  settings) is what it was. None of the three has a branch that raises.\<close>

theorem unknown_id_noop:
  assumes "i \<notin> id_f ` set (trains s)"
  shows "updateTrain numberToString i u s = s
    \<and> delayTrain numberToString i minutes s = s
    \<and> cancelTrain numberToString i s = s"
proof -
  have "find_id i (trains s) = None" using assms by (simp add: find_id_None)
  then show ?thesis by (simp add: updateTrain_def delayTrain_def cancelTrain_def)
qed

text \<open>The theorem at the initial state and an id that neither train has.\<close>

theorem unknown_id_noop_witness:
  "''id9'' \<notin> id_f ` set (trains state0)
   \<and> updateTrain unused_numberToString ''id9'' empty_updates state0 = state0
   \<and> delayTrain unused_numberToString ''id9'' 5 state0 = state0
   \<and> cancelTrain unused_numberToString ''id9'' state0 = state0"
proof -
  have h: "''id9'' \<notin> id_f ` set (trains state0)"
    by (simp add: state0_def train_12001_def train_12002_def)
  from unknown_id_noop [OF h, of unused_numberToString empty_updates 5] h
  show ?thesis by (intro conjI) simp_all
qed

subsection \<open>C8: the clock format\<close>

text \<open>C8. \<^verbatim>\<open>toHHMM\<close> normalises every integer, negative ones too, into \<open>[0, 1440)\<close>: the
  double remainder of the code is the floored \<open>mod 1440\<close>, and the result is the five
  characters \<open>HH:MM\<close> of that minute of the day, both parts zero-padded. In particular
  \<^verbatim>\<open>toHHMM(toMinutes("08:00"))\<close> is \<^verbatim>\<open>"08:00"\<close> and \<^verbatim>\<open>toHHMM(-5)\<close> is \<^verbatim>\<open>"23:55"\<close>.\<close>

theorem toHHMM_normalises:
  "js_rem (js_rem minutes (24 * 60) + 24 * 60) (24 * 60) = minutes mod 1440
   \<and> 0 \<le> minutes mod 1440 \<and> minutes mod 1440 < 1440
   \<and> toHHMM minutes = hhmm_spec minutes
   \<and> length (toHHMM minutes) = 5
   \<and> map_option toHHMM (toMinutes (Str ''08:00'')) = Some ''08:00''
   \<and> toHHMM (- 5) = ''23:55''"
proof -
  have a: "js_rem (js_rem minutes (24 * 60) + 24 * 60) (24 * 60) = minutes mod 1440"
    using js_rem_double [of 1440 minutes] by simp
  have b: "toHHMM minutes = hhmm_spec minutes" by (rule toHHMM_hhmm_spec)
  have c: "length (hhmm_spec minutes) = 5" by (simp add: hhmm_spec_def Let_def)
  have d0: "toMinutes (Str ''08:00'') = Some 480"
    by (simp add: parseInt10_def is_space_def is_digit_def digit_val_def digits_val_def Let_def)
  have e: "hhmm_spec 480 = ''08:00''"
    by (simp add: hhmm_spec_def Let_def digit_char_def)
  have d: "map_option toHHMM (toMinutes (Str ''08:00'')) = Some ''08:00''"
    by (simp only: d0 toHHMM_hhmm_spec e option.map)
  have f: "toHHMM (- 5) = ''23:55''"
    unfolding toHHMM_hhmm_spec by (simp add: hhmm_spec_def Let_def digit_char_def)
  have g: "length (toHHMM minutes) = 5" by (simp only: b c)
  have r1: "0 \<le> minutes mod 1440" and r2: "minutes mod 1440 < 1440" by simp_all
  show ?thesis by (intro conjI a r1 r2 b g d f)
qed

subsection \<open>C9: clearing the store\<close>

text \<open>C9, as the code has it. After \<^verbatim>\<open>clearAll\<close> the train list is empty and the
  announcement log holds exactly one entry, the entry that \<^verbatim>\<open>announce\<close> writes for the
  message \<^verbatim>\<open>All trains cleared.\<close>: the log is emptied and then \<^verbatim>\<open>announce\<close> is called.
  This holds for every state, whatever its trains, its log and its clock, whole or not;
  the entry is the stamp that \<^verbatim>\<open>toHHMM\<close> gives for the clock, in brackets, and the
  message.\<close>

theorem clearAll_result:
  "trains (clearAll numberToString s) = []
   \<and> announcements (clearAll numberToString s)
       = announcements (announce numberToString ''All trains cleared.''
            (s\<lparr>trains := [], announcements := []\<rparr>))
   \<and> announcements (clearAll numberToString s)
       = [''['' @ toHHMM_num numberToString (virtualMinutes (sim s)) @ ''] All trains cleared.'']
   \<and> length (announcements (clearAll numberToString s)) = 1"
  by (simp add: clearAll_def renderAll_def announce_def computeDerived_empty Let_def)

text \<open>C9 as stated fails: after \<^verbatim>\<open>clearAll\<close> on the initial state the announcement log is
  not empty.\<close>

theorem clearAll_result_counterexample:
  "announcements (clearAll unused_numberToString state0) = [''[08:00] All trains cleared.'']
   \<and> announcements (clearAll unused_numberToString state0) \<noteq> []"
proof -
  have "toHHMM_num unused_numberToString 480 = toHHMM 480"
    using toHHMM_num_of_int [of unused_numberToString 480] by simp
  also have "\<dots> = ''08:00''"
    unfolding toHHMM_hhmm_spec by (simp add: hhmm_spec_def Let_def digit_char_def)
  finally show ?thesis
    by (simp add: clearAll_def renderAll_def announce_def computeDerived_empty Let_def state0_def)
qed

text \<open>Between two whole minutes the stamp is not of the form \<open>HH:MM\<close>. At half past minute
  480 the remainder \<^verbatim>\<open>m % 60\<close> is one half, which \<^verbatim>\<open>String\<close> prints as \<^verbatim>\<open>0.5\<close>, and
  \<^verbatim>\<open>padStart\<close> leaves the three characters alone.\<close>

lemma clearAll_half_minute:
  assumes "virtualMinutes (sim s) = 961 / 2" "numberToString (1 / 2) = ''0.5''"
  shows "announcements (clearAll numberToString s) = [''[08:0.5] All trains cleared.'']"
proof -
  have m: "js_rem_num (js_rem_num (961 / 2) (24 * 60) + 24 * 60) (24 * 60) = 961 / 2"
    by (simp add: js_rem_num_def)
  have h: "real_of_int \<lfloor>(961 / 2 :: real) / 60\<rfloor> = 8" by simp
  have mm: "js_rem_num (961 / 2) 60 = 1 / 2" by (simp add: js_rem_num_def)
  have p8: "pad2_num numberToString 8 = ''08''"
    using pad2_num_of_int [of numberToString 8]
    by (simp add: pad2_def padStart_def String_of_def digit_char_def)
  have ph: "pad2_num numberToString (1 / 2) = ''0.5''"
    by (simp add: pad2_num_def String_num_def padStart_def assms(2))
  have "toHHMM_num numberToString (961 / 2) = ''08:0.5''"
    unfolding toHHMM_num_def Let_def m h mm p8 ph by simp
  then show ?thesis
    by (simp add: clearAll_def renderAll_def announce_def computeDerived_empty Let_def assms(1))
qed

subsection \<open>C10: the assignment pass writes the derived field only\<close>

text \<open>C10. The assignment pass keeps the number and the order of the train objects of
  \<^verbatim>\<open>trains\<close>, and on each of them the fields \<^verbatim>\<open>id\<close>, \<^verbatim>\<open>trainNo\<close>, \<^verbatim>\<open>from\<close>,
  \<^verbatim>\<open>to\<close>, \<^verbatim>\<open>arrive\<close>, \<^verbatim>\<open>depart\<close>, \<^verbatim>\<open>delayMin\<close>, \<^verbatim>\<open>status\<close> and
  \<^verbatim>\<open>platform\<close>, for every train list and platform count; the returned array holds the
  same objects in sorted order.\<close>

theorem assignPlatforms_frame:
  "length (snd (assignPlatforms ts N)) = length ts
   \<and> (\<forall>i < length ts.
        id_f (snd (assignPlatforms ts N) ! i) = id_f (ts ! i)
      \<and> trainNo (snd (assignPlatforms ts N) ! i) = trainNo (ts ! i)
      \<and> from_f (snd (assignPlatforms ts N) ! i) = from_f (ts ! i)
      \<and> to_f (snd (assignPlatforms ts N) ! i) = to_f (ts ! i)
      \<and> arrive (snd (assignPlatforms ts N) ! i) = arrive (ts ! i)
      \<and> depart (snd (assignPlatforms ts N) ! i) = depart (ts ! i)
      \<and> delayMin (snd (assignPlatforms ts N) ! i) = delayMin (ts ! i)
      \<and> status (snd (assignPlatforms ts N) ! i) = status (ts ! i)
      \<and> platform (snd (assignPlatforms ts N) ! i) = platform (ts ! i))
   \<and> fst (assignPlatforms ts N) = map (\<lambda>i. snd (assignPlatforms ts N) ! i) (sorted_refs ts)"
proof -
  have s: "snd (assignPlatforms ts N) = snd (assign_loop ts N)"
    by (simp add: assignPlatforms_def Let_def)
  have f: "fst (assignPlatforms ts N) = map (\<lambda>i. snd (assign_loop ts N) ! i) (sorted_refs ts)"
    by (simp add: assignPlatforms_def Let_def)
  show ?thesis
    unfolding s f
    using nth_forget_assign_loop [of _ ts N, THEN forget_assigned_fields(1)]
      nth_forget_assign_loop [of _ ts N, THEN forget_assigned_fields(2)]
      nth_forget_assign_loop [of _ ts N, THEN forget_assigned_fields(3)]
      nth_forget_assign_loop [of _ ts N, THEN forget_assigned_fields(4)]
      nth_forget_assign_loop [of _ ts N, THEN forget_assigned_fields(5)]
      nth_forget_assign_loop [of _ ts N, THEN forget_assigned_fields(6)]
      nth_forget_assign_loop [of _ ts N, THEN forget_assigned_fields(7)]
      nth_forget_assign_loop [of _ ts N, THEN forget_assigned_fields(8)]
      nth_forget_assign_loop [of _ ts N, THEN forget_assigned_fields(9)]
    by (simp add: length_assign_loop)
qed

text \<open>The theorem at the two seed trains and one platform.\<close>

theorem assignPlatforms_frame_witness:
  "trainNo (snd (assignPlatforms [train_12001, train_12002] 1) ! 1) = ''12002''
   \<and> platform (snd (assignPlatforms [train_12001, train_12002] 1) ! 1) = None
   \<and> status (snd (assignPlatforms [train_12001, train_12002] 1) ! 0) = ON_TIME"
  using assignPlatforms_frame [of "[train_12001, train_12002]" 1]
  by (simp add: train_12001_def train_12002_def)

end
